theory Spec2Isabelle
  imports Main "HOL-Library.Word" "HOL-Library.Sublist"
begin

section \<open>The alignment inspector \<^verbatim>\<open>tools/check_apk_alignment.py\<close>\<close>

text \<open>
  The script inspects a zip archive (an APK): for two fixed entry names it looks the entry
  up in the central directory, reads the 30 bytes of the entry's local file header from
  the archive file and derives the offset at which the entry's data begins.

  The script is a sequence of statements acting on the file system and on standard
  output. It is embedded as a function from the world before the run to the outcome of
  the run and the world after it. Every call that can raise is a branch of the model.
\<close>

subsection \<open>Values, errors and the world\<close>

type_synonym byte = "8 word"

text \<open>The exceptions that the calls made by the script can raise.\<close>

datatype py_error =
    KeyError
  | BadZipFile
  | FileNotFoundError
  | IsADirectoryError
  | OSError
  | ValueError
  | StructError

text \<open>An argument of \<^verbatim>\<open>print\<close>: the script prints string literals, names and integers.\<close>

datatype pyval = S string | I int

datatype fs_node = RegularFile "byte list" | Directory

text \<open>The modes of \<^verbatim>\<open>open\<close>: \<^verbatim>\<open>'rb'\<close> reads, \<^verbatim>\<open>'wb'\<close> truncates and writes.\<close>

datatype open_mode = RB | WB

datatype stream = Stdout | Stderr

text \<open>
  What a run does to its environment, in order. \<open>EvWrite\<close> is there as the writing
  access a file object offers; the script never makes it.
\<close>

datatype event =
    EvExists string
  | EvZipOpen string
  | EvGetInfo string
  | EvOpen string open_mode
  | EvSeek int
  | EvRead nat
  | EvWrite "byte list"
  | EvClose

text \<open>
  The fields of a \<^verbatim>\<open>ZipInfo\<close> that the script reads. Python integers are unbounded.
\<close>

record zipinfo =
  header_offset :: int
  compress_type :: int
  file_size :: int
  compress_size :: int

type_synonym central_directory = "string \<rightharpoonup> zipinfo"

text \<open>
  The world: the file system, the largest offset that the file system lets a file be
  positioned at, the lines printed so far on both streams (a line is the argument list of
  one \<^verbatim>\<open>print\<close> call) and the log of events.
\<close>

record world =
  fs :: "string \<rightharpoonup> fs_node"
  max_offset :: int
  stdout :: "pyval list list"
  stderr :: "pyval list list"
  trace :: "event list"

record handle =
  h_path :: string
  h_mode :: open_mode
  h_pos :: nat

text \<open>
  How a run ends: \<^verbatim>\<open>exit(n)\<close> or the end of the script, or an exception that nothing
  catches. The interpreter turns the latter into exit status 1; the traceback it then
  writes is its own and not a statement of the script, so it is carried by the outcome
  and not by the streams of the world.
\<close>

datatype outcome = Exited int | Uncaught py_error

fun exit_status :: "outcome \<Rightarrow> int" where
  "exit_status (Exited n) = n"
| "exit_status (Uncaught e) = 1"

subsection \<open>The library calls\<close>

definition log :: "event \<Rightarrow> world \<Rightarrow> world" where
  "log e w = w\<lparr>trace := trace w @ [e]\<rparr>"

text \<open>\<^verbatim>\<open>os.path.exists\<close>: true of files and of directories.\<close>

definition os_path_exists :: "string \<Rightarrow> world \<Rightarrow> bool \<times> world" where
  "os_path_exists p w = (fs w p \<noteq> None, log (EvExists p) w)"

text \<open>\<^verbatim>\<open>print(*args, file=...)\<close>; the stream defaults to standard output.\<close>

definition print_to :: "stream \<Rightarrow> pyval list \<Rightarrow> world \<Rightarrow> world" where
  "print_to st args w =
     (case st of
        Stdout \<Rightarrow> w\<lparr>stdout := stdout w @ [args]\<rparr>
      | Stderr \<Rightarrow> w\<lparr>stderr := stderr w @ [args]\<rparr>)"

definition print :: "pyval list \<Rightarrow> world \<Rightarrow> world" where
  "print args w = print_to Stdout args w"

text \<open>
  \<^verbatim>\<open>zipfile.ZipFile(path)\<close> opens the file for reading and parses its central
  directory. The parser belongs to the standard library, not to this program: it is the
  parameter \<open>parse\<close>, from the bytes of the file to the index of entries or to the
  exception raised.
\<close>

definition ZipFile ::
  "(byte list \<Rightarrow> py_error + central_directory) \<Rightarrow> string \<Rightarrow> world
     \<Rightarrow> (py_error + central_directory) \<times> world" where
  "ZipFile parse p w =
     ((case fs w p of
         None \<Rightarrow> Inl FileNotFoundError
       | Some Directory \<Rightarrow> Inl IsADirectoryError
       | Some (RegularFile bs) \<Rightarrow> parse bs),
      log (EvZipOpen p) w)"

text \<open>\<^verbatim>\<open>z.getinfo(name)\<close> raises \<^verbatim>\<open>KeyError\<close> for a name that is not in the index.\<close>

definition getinfo :: "central_directory \<Rightarrow> string \<Rightarrow> world \<Rightarrow> (py_error + zipinfo) \<times> world" where
  "getinfo z name w =
     ((case z name of None \<Rightarrow> Inl KeyError | Some info \<Rightarrow> Inr info), log (EvGetInfo name) w)"

text \<open>\<^verbatim>\<open>open(path, mode)\<close>. Opening for writing creates or empties the file.\<close>

definition py_open :: "string \<Rightarrow> open_mode \<Rightarrow> world \<Rightarrow> (py_error + handle) \<times> world" where
  "py_open p m w =
     (let w' = log (EvOpen p m) w; f = \<lparr>h_path = p, h_mode = m, h_pos = 0\<rparr>
      in case fs w p of
           Some Directory \<Rightarrow> (Inl IsADirectoryError, w')
         | Some (RegularFile bs) \<Rightarrow>
             (case m of
                RB \<Rightarrow> (Inr f, w')
              | WB \<Rightarrow> (Inr f, w'\<lparr>fs := (fs w)(p \<mapsto> RegularFile [])\<rparr>))
         | None \<Rightarrow>
             (case m of
                RB \<Rightarrow> (Inl FileNotFoundError, w')
              | WB \<Rightarrow> (Inr f, w'\<lparr>fs := (fs w)(p \<mapsto> RegularFile [])\<rparr>)))"

text \<open>
  \<^verbatim>\<open>f.seek(n)\<close>: an integer that does not fit a signed 64-bit offset is a
  \<^verbatim>\<open>ValueError\<close>; a negative offset, or one beyond what the file system supports, is
  an \<^verbatim>\<open>OSError\<close>. An offset beyond the end of the file is accepted.
\<close>

definition seekable :: "world \<Rightarrow> int \<Rightarrow> bool" where
  "seekable w n \<longleftrightarrow> 0 \<le> n \<and> n \<le> max_offset w \<and> n < 2 ^ 63"

definition seek :: "handle \<Rightarrow> int \<Rightarrow> world \<Rightarrow> (py_error + handle) \<times> world" where
  "seek f n w =
     (let w' = log (EvSeek n) w
      in if n < - (2 ^ 63) \<or> 2 ^ 63 \<le> n then (Inl ValueError, w')
         else if n < 0 \<or> max_offset w < n then (Inl OSError, w')
         else (Inr (f\<lparr>h_pos := nat n\<rparr>), w'))"

text \<open>\<^verbatim>\<open>f.read(k)\<close>: at most \<open>k\<close> bytes from the position, fewer at the end of the file.\<close>

definition file_bytes :: "world \<Rightarrow> string \<Rightarrow> byte list" where
  "file_bytes w p = (case fs w p of Some (RegularFile bs) \<Rightarrow> bs | _ \<Rightarrow> [])"

definition read :: "handle \<Rightarrow> nat \<Rightarrow> world \<Rightarrow> (byte list \<times> handle) \<times> world" where
  "read f k w =
     (let data = take k (drop (h_pos f) (file_bytes w (h_path f)))
      in ((data, f\<lparr>h_pos := h_pos f + length data\<rparr>), log (EvRead k) w))"

definition close :: "handle \<Rightarrow> world \<Rightarrow> world" where
  "close f w = log EvClose w"

text \<open>
  \<^verbatim>\<open>struct.unpack_from('<H', buf, off)[0]\<close>: the unsigned 16-bit little-endian integer
  at \<open>off\<close>, the byte at \<open>off + 1\<close> being the high one; \<^verbatim>\<open>struct.error\<close> when the
  buffer is too short.
\<close>

definition unpack_from_H :: "byte list \<Rightarrow> nat \<Rightarrow> py_error + int" where
  "unpack_from_H buf off =
     (if length buf < off + 2 then Inl StructError
      else Inr (uint (word_cat (buf ! (off + 1)) (buf ! off) :: 16 word)))"

subsection \<open>The script\<close>

text \<open>Line 3: the archive path is the first command-line argument when there is one.\<close>

definition default_apk :: string where
  "default_apk = ''app/build/outputs/apk/debug/app-debug.apk''"

definition apk_path :: "string list \<Rightarrow> string" where
  "apk_path argv = (if length argv > 1 then argv ! 1 else default_apk)"

text \<open>Line 10.\<close>

definition libraries :: "string list" where
  "libraries = [''lib/arm64-v8a/liboboe.so'', ''lib/arm64-v8a/liboboe_synth.so'']"

text \<open>
  Lines 20 to 28, the \<^verbatim>\<open>with open(apk,'rb') as f\<close> block of the loop body. It ends in
  one of three ways: \<^verbatim>\<open>continue\<close> after reporting a short read (\<open>Skipped\<close>), the
  data offset, or an exception. The file is closed on each of them.
\<close>

datatype header_result = Skipped | DataOffset int

definition read_local_header ::
  "string \<Rightarrow> string \<Rightarrow> zipinfo \<Rightarrow> world \<Rightarrow> (py_error + header_result) \<times> world" where
  "read_local_header apk name info w =
     (case py_open apk RB w of
        (Inl e, w1) \<Rightarrow> (Inl e, w1)
      | (Inr f, w1) \<Rightarrow>
          (case seek f (header_offset info) w1 of
             (Inl e, w2) \<Rightarrow> (Inl e, close f w2)
           | (Inr f2, w2) \<Rightarrow>
               (case read f2 30 w2 of
                  ((hdr, f3), w3) \<Rightarrow>
                    if length hdr < 30
                    then (Inr Skipped, close f3 (print [S name, S ''failed to read local header''] w3))
                    else
                      (case unpack_from_H hdr 26 of
                         Inl e \<Rightarrow> (Inl e, close f3 w3)
                       | Inr filename_len \<Rightarrow>
                           (case unpack_from_H hdr 28 of
                              Inl e \<Rightarrow> (Inl e, close f3 w3)
                            | Inr extra_len \<Rightarrow>
                                (Inr (DataOffset (header_offset info + 30 + filename_len + extra_len)),
                                 close f3 w3))))))"

text \<open>
  Lines 29 to 36, the report of one entry. Python's \<^verbatim>\<open>%\<close> with a positive divisor is
  the \<open>mod\<close> of HOL: both round the quotient down.
\<close>

definition report :: "string \<Rightarrow> zipinfo \<Rightarrow> int \<Rightarrow> world \<Rightarrow> world" where
  "report name info data_offset w =
     (let w1 = print [S name] w;
          w2 = print [S ''  compress_type:'', I (compress_type info), S ''(0 = stored/uncompressed)''] w1;
          w3 = print [S ''  header_offset:'', I (header_offset info)] w2;
          w4 = print [S ''  data_offset  :'', I data_offset] w3;
          w5 = print [S ''  data_offset % 16384 ='', I (data_offset mod 16384)] w4;
          w6 = print [S ''  file_size    :'', I (file_size info)] w5;
          w7 = print [S ''  compress_size:'', I (compress_size info)] w6
      in print [] w7)"

text \<open>
  Lines 13 to 36, the loop over the names. Only \<^verbatim>\<open>KeyError\<close> is caught, and only
  around \<^verbatim>\<open>getinfo\<close>. After the last name the script ends, with exit status 0.
\<close>

fun entry_loop :: "central_directory \<Rightarrow> string \<Rightarrow> string list \<Rightarrow> world \<Rightarrow> outcome \<times> world" where
  "entry_loop z apk [] w = (Exited 0, w)"
| "entry_loop z apk (name # names) w =
     (case getinfo z name w of
        (Inl e, w1) \<Rightarrow>
          if e = KeyError then entry_loop z apk names (print [S name, S ''NOT FOUND''] w1)
          else (Uncaught e, w1)
      | (Inr info, w1) \<Rightarrow>
          (case read_local_header apk name info w1 of
             (Inl e, w2) \<Rightarrow> (Uncaught e, w2)
           | (Inr Skipped, w2) \<Rightarrow> entry_loop z apk names w2
           | (Inr (DataOffset data_offset), w2) \<Rightarrow>
               entry_loop z apk names (report name info data_offset w2)))"

text \<open>The whole script. \<^verbatim>\<open>exit(2)\<close> ends the run at once.\<close>

definition usage :: string where
  "usage = CHR 0x0A # ''Usage: python tools/check_apk_alignment.py [path/to/app.apk]''"

definition main ::
  "(byte list \<Rightarrow> py_error + central_directory) \<Rightarrow> string list \<Rightarrow> world \<Rightarrow> outcome \<times> world" where
  "main parse argv w =
     (let apk = apk_path argv
      in case os_path_exists apk w of
           (False, w1) \<Rightarrow>
             (Exited 2, print [S usage] (print [S ''APK not found at'', S apk] w1))
         | (True, w1) \<Rightarrow>
             (case ZipFile parse apk w1 of
                (Inl e, w2) \<Rightarrow> (Uncaught e, w2)
              | (Inr z, w2) \<Rightarrow>
                  entry_loop z apk libraries (print [] (print [S ''Checking:'', S apk] w2))))"

subsection \<open>The text of a printed line\<close>

text \<open>
  \<^verbatim>\<open>print\<close> writes the \<^verbatim>\<open>str\<close> of each argument, one space between two
  arguments, and a newline. The \<^verbatim>\<open>str\<close> of an integer is its decimal numeral.
\<close>

fun str_nat :: "nat \<Rightarrow> string" where
  "str_nat n =
     (if n < 10 then [''0123456789'' ! n]
      else str_nat (n div 10) @ [''0123456789'' ! (n mod 10)])"

declare str_nat.simps [simp del]

fun str :: "pyval \<Rightarrow> string" where
  "str (S s) = s"
| "str (I i) = (if i < 0 then CHR ''-'' # str_nat (nat (- i)) else str_nat (nat i))"

fun join_sp :: "string list \<Rightarrow> string" where
  "join_sp [] = []"
| "join_sp [x] = x"
| "join_sp (x # y # zs) = x @ CHR '' '' # join_sp (y # zs)"

definition render_line :: "pyval list \<Rightarrow> string" where
  "render_line args = join_sp (map str args) @ [CHR 0x0A]"

subsection \<open>What a run adds to the log\<close>

definition events_of ::
  "(byte list \<Rightarrow> py_error + central_directory) \<Rightarrow> string list \<Rightarrow> world \<Rightarrow> event list" where
  "events_of parse argv w = drop (length (trace w)) (trace (snd (main parse argv w)))"

fun lookups :: "event list \<Rightarrow> string list" where
  "lookups [] = []"
| "lookups (EvGetInfo name # es) = name # lookups es"
| "lookups (e # es) = lookups es"

text \<open>The events that leave every file as it is.\<close>

fun read_only :: "event \<Rightarrow> bool" where
  "read_only (EvOpen p m) = (m = RB)"
| "read_only (EvWrite bs) = False"
| "read_only e = True"

subsection \<open>The specification's view of the local file header\<close>

text \<open>
  Following the specification's words: the 2-byte little-endian unsigned integer at a
  byte offset of the archive, and the derived offset
  \<open>header_offset + 30 + filename_length + extra_length\<close>, the two lengths being the
  fields at offsets 26 and 28 of the local file header that starts at \<open>header_offset\<close>.
\<close>

definition le16_at :: "byte list \<Rightarrow> nat \<Rightarrow> int" where
  "le16_at bs i = uint (bs ! i) + 256 * uint (bs ! (i + 1))"

definition spec_data_offset :: "byte list \<Rightarrow> int \<Rightarrow> int" where
  "spec_data_offset bs H = H + 30 + le16_at bs (nat H + 26) + le16_at bs (nat H + 28)"

subsection \<open>Example archives\<close>

text \<open>
  \<open>example_apk\<close> is a zip archive of two stored entries of four bytes each:
  \<^verbatim>\<open>lib/arm64-v8a/liboboe.so\<close> at offset 0, with six bytes of extra field in its local
  header, and \<^verbatim>\<open>lib/arm64-v8a/liboboe_synth.so\<close> at offset 64, with none.
\<close>

definition example_apk :: "byte list" where
  "example_apk =
     [80, 75, 3, 4, 20, 0, 0, 0, 0, 0, 0, 0, 33, 88, 81, 196, 58, 167, 4, 0, 0, 0, 4, 0, 0, 0,
      24, 0, 6, 0, 108, 105, 98, 47, 97, 114, 109, 54, 52, 45, 118, 56, 97, 47, 108, 105, 98,
      111, 98, 111, 101, 46, 115, 111, 53, 217, 2, 0, 0, 0, 127, 69, 76, 70, 80, 75, 3, 4, 20,
      0, 0, 0, 0, 0, 0, 0, 33, 88, 81, 196, 58, 167, 4, 0, 0, 0, 4, 0, 0, 0, 30, 0, 0, 0, 108,
      105, 98, 47, 97, 114, 109, 54, 52, 45, 118, 56, 97, 47, 108, 105, 98, 111, 98, 111, 101,
      95, 115, 121, 110, 116, 104, 46, 115, 111, 127, 69, 76, 70, 80, 75, 1, 2, 20, 3, 20, 0,
      0, 0, 0, 0, 0, 0, 33, 88, 81, 196, 58, 167, 4, 0, 0, 0, 4, 0, 0, 0, 24, 0, 6, 0, 0, 0,
      0, 0, 0, 0, 0, 0, 128, 1, 0, 0, 0, 0, 108, 105, 98, 47, 97, 114, 109, 54, 52, 45, 118,
      56, 97, 47, 108, 105, 98, 111, 98, 111, 101, 46, 115, 111, 53, 217, 2, 0, 0, 0, 80, 75,
      1, 2, 20, 3, 20, 0, 0, 0, 0, 0, 0, 0, 33, 88, 81, 196, 58, 167, 4, 0, 0, 0, 4, 0, 0, 0,
      30, 0, 0, 0, 0, 0, 0, 0, 0, 0, 0, 0, 128, 1, 64, 0, 0, 0, 108, 105, 98, 47, 97, 114,
      109, 54, 52, 45, 118, 56, 97, 47, 108, 105, 98, 111, 98, 111, 101, 95, 115, 121, 110,
      116, 104, 46, 115, 111, 80, 75, 5, 6, 0, 0, 0, 0, 2, 0, 2, 0, 152, 0, 0, 0, 128, 0, 0,
      0, 0, 0]"

definition example_index :: central_directory where
  "example_index =
     [''lib/arm64-v8a/liboboe.so'' \<mapsto>
        \<lparr>header_offset = 0, compress_type = 0, file_size = 4, compress_size = 4\<rparr>,
      ''lib/arm64-v8a/liboboe_synth.so'' \<mapsto>
        \<lparr>header_offset = 64, compress_type = 0, file_size = 4, compress_size = 4\<rparr>]"

text \<open>
  \<open>truncated_apk\<close> is a crafted file of 92 bytes: a central directory with the one
  entry \<^verbatim>\<open>lib/arm64-v8a/liboboe.so\<close>, whose local header it places at offset 80, and
  the end-of-central-directory record. Only 12 bytes follow offset 80.
\<close>

definition truncated_apk :: "byte list" where
  "truncated_apk =
     [80, 75, 1, 2, 20, 3, 20, 0, 0, 0, 0, 0, 0, 0, 33, 88, 0, 0, 0, 0, 4, 0, 0, 0, 4, 0, 0,
      0, 24, 0, 0, 0, 0, 0, 0, 0, 0, 0, 0, 0, 128, 1, 80, 0, 0, 0, 108, 105, 98, 47, 97, 114,
      109, 54, 52, 45, 118, 56, 97, 47, 108, 105, 98, 111, 98, 111, 101, 46, 115, 111, 80, 75,
      5, 6, 0, 0, 0, 0, 1, 0, 1, 0, 70, 0, 0, 0, 0, 0, 0, 0, 0, 0]"

definition truncated_index :: central_directory where
  "truncated_index =
     [''lib/arm64-v8a/liboboe.so'' \<mapsto>
        \<lparr>header_offset = 80, compress_type = 0, file_size = 4, compress_size = 4\<rparr>]"

text \<open>
  \<open>bad_offset_apk\<close> is the same central directory with the local header at offset 0,
  followed by an end-of-central-directory record that places the directory 16 bytes after
  its real position. The library takes the archive to start 16 bytes before the file
  and moves every header offset by as much.
\<close>

definition bad_offset_apk :: "byte list" where
  "bad_offset_apk =
     [80, 75, 1, 2, 20, 3, 20, 0, 0, 0, 0, 0, 0, 0, 33, 88, 0, 0, 0, 0, 4, 0, 0, 0, 4, 0, 0,
      0, 24, 0, 0, 0, 0, 0, 0, 0, 0, 0, 0, 0, 128, 1, 0, 0, 0, 0, 108, 105, 98, 47, 97, 114,
      109, 54, 52, 45, 118, 56, 97, 47, 108, 105, 98, 111, 98, 111, 101, 46, 115, 111, 80, 75,
      5, 6, 0, 0, 0, 0, 1, 0, 1, 0, 70, 0, 0, 0, 16, 0, 0, 0, 0, 0]"

definition bad_offset_index :: central_directory where
  "bad_offset_index =
     [''lib/arm64-v8a/liboboe.so'' \<mapsto>
        \<lparr>header_offset = - 16, compress_type = 0, file_size = 4, compress_size = 4\<rparr>]"

text \<open>\<open>empty_zip\<close> is the archive with no entry: the end-of-central-directory record alone.\<close>

definition empty_zip :: "byte list" where
  "empty_zip =
     [80, 75, 5, 6, 0, 0, 0, 0, 0, 0, 0, 0, 0, 0, 0, 0, 0, 0, 0, 0, 0, 0]"

definition empty_index :: central_directory where
  "empty_index = Map.empty"

text \<open>
  What \<^verbatim>\<open>zipfile.ZipFile\<close> returns for these four files, and for the file of no bytes,
  which is not a zip archive. No other content is asked for below.
\<close>

definition example_parse :: "byte list \<Rightarrow> py_error + central_directory" where
  "example_parse bs =
     (if bs = example_apk then Inr example_index
      else if bs = truncated_apk then Inr truncated_index
      else if bs = bad_offset_apk then Inr bad_offset_index
      else if bs = empty_zip then Inr empty_index
      else Inl BadZipFile)"

text \<open>A world whose only file is \<open>bs\<close> at \<open>p\<close>, and the world with no file.\<close>

definition world_with :: "string \<Rightarrow> byte list \<Rightarrow> world" where
  "world_with p bs =
     \<lparr>fs = [p \<mapsto> RegularFile bs], max_offset = 2 ^ 63 - 1, stdout = [], stderr = [], trace = []\<rparr>"

definition empty_world :: world where
  "empty_world = \<lparr>fs = Map.empty, max_offset = 2 ^ 63 - 1, stdout = [], stderr = [], trace = []\<rparr>"

definition no_args :: "string list" where
  "no_args = [''tools/check_apk_alignment.py'']"

definition with_arg :: "string list" where
  "with_arg = [''tools/check_apk_alignment.py'', ''app.apk'']"

section \<open>Properties\<close>

subsection \<open>The library calls and the loop\<close>

lemma uint_word_cat_bytes:
  "uint (word_cat (hi :: byte) (lo :: byte) :: 16 word) = uint lo + 256 * uint hi"
proof -
  have lo: "uint lo < 256" using uint_lt2p [of lo] by simp
  have hi: "uint hi < 256" using uint_lt2p [of hi] by simp
  have "uint (word_cat hi lo :: 16 word) = concat_bit 8 (uint lo) (uint hi) mod 2 ^ 16"
    by (simp add: word_cat_eq' uint_word_of_int take_bit_eq_mod)
  also have "concat_bit 8 (uint lo) (uint hi) = uint lo + 256 * uint hi"
    using lo by (simp add: concat_bit_eq take_bit_eq_mod push_bit_eq_mult)
  finally show ?thesis using lo hi by simp
qed

lemma unpack_from_H_le16:
  "off + 2 \<le> length buf \<Longrightarrow> unpack_from_H buf off = Inr (le16_at buf off)"
  by (simp add: unpack_from_H_def le16_at_def uint_word_cat_bytes)

lemma le16_at_bounds: "0 \<le> le16_at bs i \<and> le16_at bs i < 65536"
proof -
  have "uint (bs ! i) < 256" "uint (bs ! (i + 1)) < 256"
    using uint_lt2p [of "bs ! i"] uint_lt2p [of "bs ! (i + 1)"] by simp_all
  then show ?thesis by (simp add: le16_at_def)
qed

lemma le16_at_header:
  assumes "n + 30 \<le> length bs" and "i + 1 < 30"
  shows "le16_at (take 30 (drop n bs)) i = le16_at bs (n + i)"
  using assms by (simp add: le16_at_def add.assoc)

lemma print_frame [simp]:
  "fs (print args w) = fs w" "max_offset (print args w) = max_offset w"
  "stderr (print args w) = stderr w" "trace (print args w) = trace w"
  "stdout (print args w) = stdout w @ [args]"
  by (simp_all add: print_def print_to_def)

lemma log_frame [simp]:
  "fs (log e w) = fs w" "max_offset (log e w) = max_offset w"
  "stderr (log e w) = stderr w" "trace (log e w) = trace w @ [e]"
  "stdout (log e w) = stdout w"
  by (simp_all add: log_def)

lemma report_frame [simp]:
  "fs (report name info d w) = fs w" "max_offset (report name info d w) = max_offset w"
  "stderr (report name info d w) = stderr w" "trace (report name info d w) = trace w"
  by (simp_all add: report_def Let_def)

lemma report_stdout:
  "stdout (report name info d w) = stdout w @
     [[S name],
      [S ''  compress_type:'', I (compress_type info), S ''(0 = stored/uncompressed)''],
      [S ''  header_offset:'', I (header_offset info)],
      [S ''  data_offset  :'', I d],
      [S ''  data_offset % 16384 ='', I (d mod 16384)],
      [S ''  file_size    :'', I (file_size info)],
      [S ''  compress_size:'', I (compress_size info)],
      []]"
  by (simp add: report_def Let_def)

lemma py_open_rb:
  "fs w p = Some (RegularFile bs) \<Longrightarrow>
   py_open p RB w = (Inr \<lparr>h_path = p, h_mode = RB, h_pos = 0\<rparr>, log (EvOpen p RB) w)"
  by (simp add: py_open_def Let_def)

lemma seek_ok:
  "seekable w n \<Longrightarrow> seek f n w = (Inr (f\<lparr>h_pos := nat n\<rparr>), log (EvSeek n) w)"
  by (simp add: seek_def seekable_def Let_def)

lemma seek_fails:
  "\<not> seekable w n \<Longrightarrow>
   seek f n w = (Inl (if n < - (2 ^ 63) \<or> 2 ^ 63 \<le> n then ValueError else OSError), log (EvSeek n) w)"
  by (auto simp add: seek_def seekable_def Let_def)

lemma read_regular:
  "fs w (h_path f) = Some (RegularFile bs) \<Longrightarrow>
   read f k w = ((take k (drop (h_pos f) bs), f\<lparr>h_pos := h_pos f + length (take k (drop (h_pos f) bs))\<rparr>),
                 log (EvRead k) w)"
  by (simp add: read_def file_bytes_def Let_def)

lemma seekable_update [simp]:
  "seekable (w\<lparr>trace := t\<rparr>) n = seekable w n" "seekable (w\<lparr>stdout := ls\<rparr>) n = seekable w n"
  by (simp_all add: seekable_def)

lemma seekable_log [simp]: "seekable (log e w) n = seekable w n"
  by (simp add: seekable_def)

lemma seekable_print [simp]: "seekable (print args w) n = seekable w n"
  by (simp add: seekable_def)

lemma seekable_report [simp]: "seekable (report name info d w) n = seekable w n"
  by (simp add: seekable_def)

lemma read_local_header_ok:
  assumes reg: "fs w apk = Some (RegularFile bs)" and pos: "seekable w (header_offset info)"
    and len: "nat (header_offset info) + 30 \<le> length bs"
  shows "read_local_header apk name info w =
    (Inr (DataOffset (spec_data_offset bs (header_offset info))),
     w\<lparr>trace := trace w @ [EvOpen apk RB, EvSeek (header_offset info), EvRead 30, EvClose]\<rparr>)"
proof -
  let ?hdr = "take 30 (drop (nat (header_offset info)) bs)"
  have full: "length ?hdr = 30" using len by simp
  have f: "unpack_from_H ?hdr 26 = Inr (le16_at bs (nat (header_offset info) + 26))"
    using full len by (simp add: unpack_from_H_le16 le16_at_header)
  have e: "unpack_from_H ?hdr 28 = Inr (le16_at bs (nat (header_offset info) + 28))"
    using full len by (simp add: unpack_from_H_le16 le16_at_header)
  show ?thesis
    unfolding read_local_header_def
    using reg pos full f e
    by (simp add: py_open_rb seek_ok read_regular close_def spec_data_offset_def log_def)
qed

lemma read_local_header_short:
  assumes reg: "fs w apk = Some (RegularFile bs)" and pos: "seekable w (header_offset info)"
    and len: "length bs < nat (header_offset info) + 30"
  shows "read_local_header apk name info w =
    (Inr Skipped,
     w\<lparr>stdout := stdout w @ [[S name, S ''failed to read local header'']],
        trace := trace w @ [EvOpen apk RB, EvSeek (header_offset info), EvRead 30, EvClose]\<rparr>)"
proof -
  let ?hdr = "take 30 (drop (nat (header_offset info)) bs)"
  have short: "length bs - nat (header_offset info) < 30" using len by simp
  show ?thesis
    unfolding read_local_header_def
    using reg pos short
    by (simp add: py_open_rb seek_ok read_regular close_def log_def print_def print_to_def)
qed

lemma read_local_header_unseekable:
  assumes reg: "fs w apk = Some (RegularFile bs)" and pos: "\<not> seekable w (header_offset info)"
  shows "read_local_header apk name info w =
    (Inl (if header_offset info < - (2 ^ 63) \<or> 2 ^ 63 \<le> header_offset info then ValueError else OSError),
     w\<lparr>trace := trace w @ [EvOpen apk RB, EvSeek (header_offset info), EvClose]\<rparr>)"
  unfolding read_local_header_def
  using reg pos
  by (simp add: py_open_rb seek_fails close_def log_def)

lemma read_local_header_frame:
  assumes "read_local_header apk name info w = (r, w')"
  shows "fs w' = fs w \<and> max_offset w' = max_offset w \<and> stderr w' = stderr w
    \<and> (\<exists>ls. stdout w' = stdout w @ ls)
    \<and> (\<exists>evs. trace w' = trace w @ evs \<and> list_all read_only evs \<and> lookups evs = [])"
  using assms
  by (auto simp add: read_local_header_def py_open_def seek_def read_def close_def
      Let_def split: option.splits fs_node.splits if_splits sum.splits)


lemma lookups_append [simp]: "lookups (xs @ ys) = lookups xs @ lookups ys"
  by (induction xs rule: lookups.induct) simp_all

lemma entry_loop_absent:
  "z name = None \<Longrightarrow>
   entry_loop z apk (name # names) w =
   entry_loop z apk names (print [S name, S ''NOT FOUND''] (log (EvGetInfo name) w))"
  by (simp add: getinfo_def)

lemma entry_loop_found:
  "z name = Some info \<Longrightarrow>
   entry_loop z apk (name # names) w =
   (case read_local_header apk name info (log (EvGetInfo name) w) of
      (Inl e, w2) \<Rightarrow> (Uncaught e, w2)
    | (Inr Skipped, w2) \<Rightarrow> entry_loop z apk names w2
    | (Inr (DataOffset data_offset), w2) \<Rightarrow>
        entry_loop z apk names (report name info data_offset w2))"
  by (simp add: getinfo_def)

declare entry_loop.simps(2) [simp del]

lemma entry_loop_effect:
  "entry_loop z apk names w = (out, w') \<Longrightarrow>
   fs w' = fs w \<and> max_offset w' = max_offset w \<and> stderr w' = stderr w
   \<and> (\<exists>ls. stdout w' = stdout w @ ls)
   \<and> (\<exists>evs. trace w' = trace w @ evs \<and> list_all read_only evs
          \<and> prefix (lookups evs) names \<and> (out = Exited 0 \<longrightarrow> lookups evs = names))"
proof (induction names arbitrary: w)
  case Nil
  then show ?case by auto
next
  case (Cons name names)
  show ?case
  proof (cases "z name")
    case None
    let ?w1 = "print [S name, S ''NOT FOUND''] (log (EvGetInfo name) w)"
    from Cons.prems None have "entry_loop z apk names ?w1 = (out, w')"
      by (simp add: entry_loop_absent)
    from Cons.IH [OF this] obtain ls evs where
      "fs w' = fs w" "max_offset w' = max_offset w" "stderr w' = stderr w"
      "stdout w' = stdout ?w1 @ ls" "trace w' = trace ?w1 @ evs" "list_all read_only evs"
      "prefix (lookups evs) names" "out = Exited 0 \<longrightarrow> lookups evs = names"
      by auto
    then show ?thesis
      by (auto intro!: exI [of _ "EvGetInfo name # evs"])
  next
    case (Some info)
    let ?w1 = "log (EvGetInfo name) w"
    obtain r w2 where r: "read_local_header apk name info ?w1 = (r, w2)"
      by (cases "read_local_header apk name info ?w1")
    from read_local_header_frame [OF r] obtain ls2 evs2 where
      w2: "fs w2 = fs w" "max_offset w2 = max_offset w" "stderr w2 = stderr w"
        "stdout w2 = stdout w @ ls2" "trace w2 = trace w @ EvGetInfo name # evs2"
        "list_all read_only evs2" "lookups evs2 = []"
      by auto
    show ?thesis
    proof (cases r)
      case (Inl e)
      with Cons.prems Some r have "out = Uncaught e" "w' = w2"
        by (simp_all add: entry_loop_found)
      with w2 show ?thesis
        by (auto intro!: exI [of _ "EvGetInfo name # evs2"])
    next
      case (Inr h)
      show ?thesis
      proof (cases h)
        case Skipped
        with Cons.prems Some r Inr have "entry_loop z apk names w2 = (out, w')"
          by (simp add: entry_loop_found)
        from Cons.IH [OF this] obtain ls evs where
          "fs w' = fs w2" "max_offset w' = max_offset w2" "stderr w' = stderr w2"
          "stdout w' = stdout w2 @ ls" "trace w' = trace w2 @ evs" "list_all read_only evs"
          "prefix (lookups evs) names" "out = Exited 0 \<longrightarrow> lookups evs = names"
          by auto
        with w2 show ?thesis
          by (auto intro!: exI [of _ "EvGetInfo name # evs2 @ evs"])
      next
        case (DataOffset d)
        let ?w3 = "report name info d w2"
        from Cons.prems Some r Inr DataOffset have "entry_loop z apk names ?w3 = (out, w')"
          by (simp add: entry_loop_found)
        from Cons.IH [OF this] obtain ls evs where
          "fs w' = fs w2" "max_offset w' = max_offset w2" "stderr w' = stderr w2"
          "stdout w' = stdout ?w3 @ ls" "trace w' = trace w2 @ evs" "list_all read_only evs"
          "prefix (lookups evs) names" "out = Exited 0 \<longrightarrow> lookups evs = names"
          by auto
        with w2 show ?thesis
          by (auto simp add: report_stdout intro!: exI [of _ "EvGetInfo name # evs2 @ evs"])
      qed
    qed
  qed
qed


lemma entry_loop_completes:
  assumes "fs w apk = Some (RegularFile bs)"
    and "\<forall>name \<in> set names. \<forall>info. z name = Some info \<longrightarrow> seekable w (header_offset info)"
  shows "fst (entry_loop z apk names w) = Exited 0"
  using assms
proof (induction names arbitrary: w)
  case Nil
  show ?case by simp
next
  case (Cons name names)
  have rest: "fst (entry_loop z apk names v) = Exited 0"
    if "fs v = fs w" and "max_offset v = max_offset w" for v
    using that Cons.prems by (intro Cons.IH) (simp_all add: seekable_def)
  show ?case
  proof (cases "z name")
    case None
    then show ?thesis by (simp add: entry_loop_absent rest)
  next
    case (Some info)
    let ?w1 = "log (EvGetInfo name) w"
    have reg: "fs ?w1 apk = Some (RegularFile bs)" using Cons.prems(1) by simp
    have pos: "seekable ?w1 (header_offset info)" using Cons.prems(2) Some by simp
    show ?thesis
    proof (cases "nat (header_offset info) + 30 \<le> length bs")
      case True
      show ?thesis
        using Some by (simp add: entry_loop_found read_local_header_ok [OF reg pos True] rest)
    next
      case False
      then have short: "length bs < nat (header_offset info) + 30" by simp
      show ?thesis
        using Some by (simp add: entry_loop_found read_local_header_short [OF reg pos short] rest)
    qed
  qed
qed

subsection \<open>The script as a whole\<close>

lemma main_missing:
  "fs w (apk_path argv) = None \<Longrightarrow>
   main parse argv w =
   (Exited 2,
    w\<lparr>stdout := stdout w @ [[S ''APK not found at'', S (apk_path argv)], [S usage]],
       trace := trace w @ [EvExists (apk_path argv)]\<rparr>)"
  by (simp add: main_def os_path_exists_def print_def print_to_def log_def Let_def)

lemma main_not_opened:
  assumes "fs w (apk_path argv) = Some node"
    and "(case node of Directory \<Rightarrow> Inl IsADirectoryError | RegularFile bs \<Rightarrow> parse bs) = Inl e"
  shows "main parse argv w =
   (Uncaught e, w\<lparr>trace := trace w @ [EvExists (apk_path argv), EvZipOpen (apk_path argv)]\<rparr>)"
  using assms
  by (simp add: main_def os_path_exists_def ZipFile_def log_def Let_def split: fs_node.splits)

lemma main_opened:
  assumes "fs w (apk_path argv) = Some (RegularFile bs)" and "parse bs = Inr z"
  shows "main parse argv w =
   entry_loop z (apk_path argv) libraries
     (w\<lparr>stdout := stdout w @ [[S ''Checking:'', S (apk_path argv)], []],
        trace := trace w @ [EvExists (apk_path argv), EvZipOpen (apk_path argv)]\<rparr>)"
proof -
  let ?apk = "apk_path argv"
  have eq: "print [] (print [S ''Checking:'', S ?apk] (log (EvZipOpen ?apk) (log (EvExists ?apk) w))) =
     w\<lparr>stdout := stdout w @ [[S ''Checking:'', S ?apk], []],
       trace := trace w @ [EvExists ?apk, EvZipOpen ?apk]\<rparr>"
    by (simp add: log_def print_def print_to_def)
  show ?thesis
    using assms by (simp add: main_def os_path_exists_def ZipFile_def Let_def eq)
qed

lemma main_effect:
  assumes "main parse argv w = (out, w')"
  shows "fs w' = fs w \<and> max_offset w' = max_offset w \<and> stderr w' = stderr w
   \<and> (\<exists>ls. stdout w' = stdout w @ ls)
   \<and> (\<exists>evs. trace w' = trace w @ evs \<and> list_all read_only evs
          \<and> prefix (lookups evs) libraries \<and> (out = Exited 0 \<longrightarrow> lookups evs = libraries))"
proof (cases "fs w (apk_path argv)")
  case None
  with assms show ?thesis by (auto simp add: main_missing)
next
  case (Some node)
  let ?r = "case node of Directory \<Rightarrow> Inl IsADirectoryError | RegularFile bs \<Rightarrow> parse bs"
  show ?thesis
  proof (cases ?r)
    case (Inl e)
    from main_not_opened [OF Some Inl] assms show ?thesis by auto
  next
    case (Inr z)
    then obtain bs where node: "node = RegularFile bs" and z: "parse bs = Inr z"
      by (cases node) simp_all
    let ?w1 = "w\<lparr>stdout := stdout w @ [[S ''Checking:'', S (apk_path argv)], []],
        trace := trace w @ [EvExists (apk_path argv), EvZipOpen (apk_path argv)]\<rparr>"
    from main_opened [of w argv bs parse z] assms Some node z
    have "entry_loop z (apk_path argv) libraries ?w1 = (out, w')" by simp
    from entry_loop_effect [OF this] obtain ls evs where
      "fs w' = fs w" "max_offset w' = max_offset w" "stderr w' = stderr w"
      "stdout w' = stdout ?w1 @ ls" "trace w' = trace ?w1 @ evs" "list_all read_only evs"
      "prefix (lookups evs) libraries" "out = Exited 0 \<longrightarrow> lookups evs = libraries"
      by auto
    then show ?thesis
      by (auto intro!: exI [of _ "EvExists (apk_path argv) # EvZipOpen (apk_path argv) # evs"])
  qed
qed


lemma read_local_header_DataOffset:
  assumes "read_local_header apk name info w = (Inr (DataOffset d), w')"
  shows "seekable w (header_offset info) \<and>
    (\<exists>bs. fs w apk = Some (RegularFile bs) \<and> nat (header_offset info) + 30 \<le> length bs
       \<and> d = spec_data_offset bs (header_offset info))"
proof (cases "fs w apk")
  case None
  with assms show ?thesis by (simp add: read_local_header_def py_open_def Let_def)
next
  case (Some node)
  show ?thesis
  proof (cases node)
    case Directory
    with Some assms show ?thesis by (simp add: read_local_header_def py_open_def Let_def)
  next
    case (RegularFile bs)
    with Some have reg: "fs w apk = Some (RegularFile bs)" by simp
    show ?thesis
    proof (cases "seekable w (header_offset info)")
      case False
      from read_local_header_unseekable [OF reg False] assms show ?thesis by simp
    next
      case True
      show ?thesis
      proof (cases "nat (header_offset info) + 30 \<le> length bs")
        case False
        then have "length bs < nat (header_offset info) + 30" by simp
        from read_local_header_short [OF reg True this] assms show ?thesis by simp
      next
        case len: True
        from read_local_header_ok [OF reg True len] assms reg True len show ?thesis by simp
      qed
    qed
  qed
qed

lemma spec_data_offset_lower: "0 \<le> H \<Longrightarrow> 30 \<le> spec_data_offset bs H"
  using le16_at_bounds [of bs "nat H + 26"] le16_at_bounds [of bs "nat H + 28"]
  by (simp add: spec_data_offset_def)

lemma events_of_eq:
  "trace (snd (main parse argv w)) = trace w @ evs \<Longrightarrow> events_of parse argv w = evs"
  by (simp add: events_of_def)

lemma main_first_event:
  "\<exists>evs. trace (snd (main parse argv w)) = trace w @ EvExists (apk_path argv) # evs"
proof (cases "fs w (apk_path argv)")
  case None
  then show ?thesis by (simp add: main_missing)
next
  case (Some node)
  let ?r = "case node of Directory \<Rightarrow> Inl IsADirectoryError | RegularFile bs \<Rightarrow> parse bs"
  show ?thesis
  proof (cases ?r)
    case (Inl e)
    from main_not_opened [OF Some Inl] show ?thesis by simp
  next
    case (Inr z)
    then obtain bs where node: "node = RegularFile bs" and z: "parse bs = Inr z"
      by (cases node) simp_all
    let ?w1 = "w\<lparr>stdout := stdout w @ [[S ''Checking:'', S (apk_path argv)], []],
        trace := trace w @ [EvExists (apk_path argv), EvZipOpen (apk_path argv)]\<rparr>"
    obtain out w' where run: "entry_loop z (apk_path argv) libraries ?w1 = (out, w')"
      by (cases "entry_loop z (apk_path argv) libraries ?w1")
    from entry_loop_effect [OF run] obtain evs where "trace w' = trace ?w1 @ evs" by auto
    with main_opened [of w argv bs parse z] Some node z run show ?thesis by simp
  qed
qed

lemma sublist_second_arg: "sublist b (render_line [S a, S b])"
  unfolding sublist_def render_line_def
  by (rule exI [of _ "a @ '' ''"], rule exI [of _ "[CHR 0x0A]"]) simp

lemma sublist_usage:
  "sublist ''Usage: python tools/check_apk_alignment.py [path/to/app.apk]'' (render_line [S usage])"
  unfolding sublist_def render_line_def usage_def
  by (rule exI [of _ "[CHR 0x0A]"], rule exI [of _ "[CHR 0x0A]"]) simp

lemma apk_path_examples:
  "apk_path no_args = ''app/build/outputs/apk/debug/app-debug.apk''"
  "apk_path with_arg = ''app.apk''"
  by (simp_all add: apk_path_def no_args_def with_arg_def default_apk_def)

subsection \<open>Facts about the example archives\<close>

lemma example_facts:
  "length example_apk = 302"
  "spec_data_offset example_apk 0 = 60"
  "spec_data_offset example_apk 64 = 124"
  "le16_at example_apk 26 = 24" "le16_at example_apk 28 = 6"
  "le16_at example_apk 90 = 30" "le16_at example_apk 92 = 0"
  by (simp_all add: example_apk_def spec_data_offset_def le16_at_def)

lemma example_parse_facts:
  "example_parse example_apk = Inr example_index"
  "example_parse truncated_apk = Inr truncated_index"
  "example_parse bad_offset_apk = Inr bad_offset_index"
  "example_parse empty_zip = Inr empty_index"
  "example_parse [] = Inl BadZipFile"
  by (simp_all add: example_parse_def example_apk_def truncated_apk_def bad_offset_apk_def empty_zip_def)


lemma example_world_file:
  "fs (world_with ''app.apk'' example_apk) ''app.apk'' = Some (RegularFile example_apk)"
  by (simp add: world_with_def)

lemma example_synth_header:
  "fst (read_local_header ''app.apk'' ''lib/arm64-v8a/liboboe_synth.so''
          \<lparr>header_offset = 64, compress_type = 0, file_size = 4, compress_size = 4\<rparr>
          (world_with ''app.apk'' example_apk)) = Inr (DataOffset 124)"
proof -
  have pos: "seekable (world_with ''app.apk'' example_apk) (header_offset
      \<lparr>header_offset = 64, compress_type = 0, file_size = 4, compress_size = 4\<rparr>)"
    by (simp add: seekable_def world_with_def)
  have len: "nat (header_offset
      \<lparr>header_offset = 64, compress_type = 0, file_size = 4, compress_size = 4\<rparr>) + 30
      \<le> length example_apk"
    by (simp add: example_facts)
  show ?thesis
    by (simp add: read_local_header_ok [OF example_world_file pos len] example_facts)
qed

lemma example_run_default:
  "fst (main example_parse no_args
          (world_with ''app/build/outputs/apk/debug/app-debug.apk'' example_apk)) = Exited 0"
proof -
  let ?w = "world_with ''app/build/outputs/apk/debug/app-debug.apk'' example_apk"
  let ?w1 = "?w\<lparr>stdout := stdout ?w @ [[S ''Checking:'', S (apk_path no_args)], []],
        trace := trace ?w @ [EvExists (apk_path no_args), EvZipOpen (apk_path no_args)]\<rparr>"
  have reg: "fs ?w (apk_path no_args) = Some (RegularFile example_apk)"
    by (simp add: world_with_def apk_path_examples)
  have run: "main example_parse no_args ?w = entry_loop example_index (apk_path no_args) libraries ?w1"
    using reg by (rule main_opened) (simp add: example_parse_facts)
  have "fst (entry_loop example_index (apk_path no_args) libraries ?w1) = Exited 0"
  proof (rule entry_loop_completes)
    show "fs ?w1 (apk_path no_args) = Some (RegularFile example_apk)" using reg by simp
    show "\<forall>name \<in> set libraries. \<forall>info. example_index name = Some info \<longrightarrow>
        seekable ?w1 (header_offset info)"
      by (auto simp add: libraries_def example_index_def seekable_def world_with_def)
  qed
  with run show ?thesis by simp
qed



section \<open>The claims\<close>

text \<open>
  C1. For an entry found in the central directory whose local header is fully readable
  (the archive is a regular file, the header offset is a position the file can be set to,
  and 30 bytes follow it), the data offset the script computes is
  \<open>header_offset + 30 + filename_length + extra_length\<close>, the two lengths being the
  2-byte little-endian unsigned integers at offsets 26 and 28 of the 30 bytes read at
  \<open>header_offset\<close>; the loop reports that value and goes on with the next name.
\<close>

theorem data_offset_from_local_header:
  assumes "z name = Some info" and "fs w apk = Some (RegularFile bs)"
    and "seekable w (header_offset info)" and "nat (header_offset info) + 30 \<le> length bs"
  shows "fst (read_local_header apk name info (log (EvGetInfo name) w)) =
           Inr (DataOffset (header_offset info + 30 + le16_at bs (nat (header_offset info) + 26)
                              + le16_at bs (nat (header_offset info) + 28)))
    \<and> entry_loop z apk (name # names) w =
        entry_loop z apk names
          (report name info
             (header_offset info + 30 + le16_at bs (nat (header_offset info) + 26)
                + le16_at bs (nat (header_offset info) + 28))
             (snd (read_local_header apk name info (log (EvGetInfo name) w))))"
proof -
  let ?w1 = "log (EvGetInfo name) w"
  have reg: "fs ?w1 apk = Some (RegularFile bs)" using assms(2) by simp
  have pos: "seekable ?w1 (header_offset info)" using assms(3) by simp
  note ok = read_local_header_ok [OF reg pos assms(4), of name]
  have "fst (read_local_header apk name info ?w1) =
      Inr (DataOffset (spec_data_offset bs (header_offset info)))"
    by (simp add: ok)
  moreover have "entry_loop z apk (name # names) w =
      entry_loop z apk names (report name info (spec_data_offset bs (header_offset info))
        (snd (read_local_header apk name info ?w1)))"
    using assms(1) by (simp add: entry_loop_found ok)
  ultimately show ?thesis by (simp add: spec_data_offset_def)
qed

theorem data_offset_from_local_header_witness:
  "example_index ''lib/arm64-v8a/liboboe.so'' =
     Some \<lparr>header_offset = 0, compress_type = 0, file_size = 4, compress_size = 4\<rparr>
   \<and> fs (world_with ''app.apk'' example_apk) ''app.apk'' = Some (RegularFile example_apk)
   \<and> seekable (world_with ''app.apk'' example_apk) 0
   \<and> nat 0 + 30 \<le> length example_apk
   \<and> fst (read_local_header ''app.apk'' ''lib/arm64-v8a/liboboe.so''
            \<lparr>header_offset = 0, compress_type = 0, file_size = 4, compress_size = 4\<rparr>
            (log (EvGetInfo ''lib/arm64-v8a/liboboe.so'') (world_with ''app.apk'' example_apk)))
       = Inr (DataOffset 60)"
  using data_offset_from_local_header [of example_index "''lib/arm64-v8a/liboboe.so''"
      "\<lparr>header_offset = 0, compress_type = 0, file_size = 4, compress_size = 4\<rparr>"
      "world_with ''app.apk'' example_apk" "''app.apk''" example_apk "[]"]
  by (simp add: example_index_def world_with_def seekable_def example_facts)

text \<open>
  C2. If nothing exists at the archive path, the script prints a line that contains the
  path and a line that contains the usage text, and ends with exit status 2. The only
  thing it has done to its environment is the existence test: the archive is not opened
  and no entry is looked up.
\<close>

theorem missing_archive_exits_2:
  assumes "fs w (apk_path argv) = None"
  shows "fst (main parse argv w) = Exited 2
    \<and> exit_status (fst (main parse argv w)) = 2
    \<and> stdout (snd (main parse argv w)) =
        stdout w @ [[S ''APK not found at'', S (apk_path argv)], [S usage]]
    \<and> sublist (apk_path argv) (render_line [S ''APK not found at'', S (apk_path argv)])
    \<and> sublist ''Usage: python tools/check_apk_alignment.py [path/to/app.apk]''
        (render_line [S usage])
    \<and> events_of parse argv w = [EvExists (apk_path argv)]
    \<and> lookups (events_of parse argv w) = []"
  using assms
  by (simp add: main_missing events_of_def sublist_second_arg sublist_usage)

theorem missing_archive_exits_2_witness:
  "fs empty_world (apk_path no_args) = None
   \<and> exit_status (fst (main example_parse no_args empty_world)) = 2
   \<and> stdout (snd (main example_parse no_args empty_world)) =
       [[S ''APK not found at'', S ''app/build/outputs/apk/debug/app-debug.apk''], [S usage]]
   \<and> events_of example_parse no_args empty_world =
       [EvExists ''app/build/outputs/apk/debug/app-debug.apk'']"
  using missing_archive_exits_2 [of empty_world no_args example_parse]
  by (simp add: empty_world_def apk_path_examples)

text \<open>
  C3. A name that is not in the central directory is reported as \<^verbatim>\<open>NOT FOUND\<close> and
  the loop goes on with the next name. When the archive exists, opens as a zip and has
  neither of the two entries, the script prints \<^verbatim>\<open>NOT FOUND\<close> for each, in order,
  and ends with exit status 0.
\<close>

theorem absent_entry_not_found:
  "(z name = None \<longrightarrow>
      entry_loop z apk (name # names) w =
      entry_loop z apk names (print [S name, S ''NOT FOUND''] (log (EvGetInfo name) w)))
   \<and> (fs w (apk_path argv) = Some (RegularFile bs) \<and> parse bs = Inr z'
        \<and> z' ''lib/arm64-v8a/liboboe.so'' = None \<and> z' ''lib/arm64-v8a/liboboe_synth.so'' = None \<longrightarrow>
      fst (main parse argv w) = Exited 0
      \<and> exit_status (fst (main parse argv w)) = 0
      \<and> stdout (snd (main parse argv w)) =
          stdout w @ [[S ''Checking:'', S (apk_path argv)], [],
                      [S ''lib/arm64-v8a/liboboe.so'', S ''NOT FOUND''],
                      [S ''lib/arm64-v8a/liboboe_synth.so'', S ''NOT FOUND'']])"
proof (intro conjI impI)
  assume "z name = None"
  then show "entry_loop z apk (name # names) w =
      entry_loop z apk names (print [S name, S ''NOT FOUND''] (log (EvGetInfo name) w))"
    by (rule entry_loop_absent)
next
  assume a: "fs w (apk_path argv) = Some (RegularFile bs) \<and> parse bs = Inr z'
        \<and> z' ''lib/arm64-v8a/liboboe.so'' = None \<and> z' ''lib/arm64-v8a/liboboe_synth.so'' = None"
  then have run: "main parse argv w =
      entry_loop z' (apk_path argv) [''lib/arm64-v8a/liboboe.so'', ''lib/arm64-v8a/liboboe_synth.so'']
        (w\<lparr>stdout := stdout w @ [[S ''Checking:'', S (apk_path argv)], []],
           trace := trace w @ [EvExists (apk_path argv), EvZipOpen (apk_path argv)]\<rparr>)"
    using main_opened [of w argv bs parse z'] by (simp add: libraries_def)
  from a show "fst (main parse argv w) = Exited 0"
    by (simp add: run entry_loop_absent)
  then show "exit_status (fst (main parse argv w)) = 0" by simp
  from a show "stdout (snd (main parse argv w)) =
          stdout w @ [[S ''Checking:'', S (apk_path argv)], [],
                      [S ''lib/arm64-v8a/liboboe.so'', S ''NOT FOUND''],
                      [S ''lib/arm64-v8a/liboboe_synth.so'', S ''NOT FOUND'']]"
    by (simp add: run entry_loop_absent)
qed

theorem absent_entry_not_found_witness:
  "empty_index ''lib/arm64-v8a/liboboe.so'' = None
   \<and> empty_index ''lib/arm64-v8a/liboboe_synth.so'' = None
   \<and> entry_loop empty_index ''app.apk'' [''lib/arm64-v8a/liboboe_synth.so'']
         (world_with ''app.apk'' empty_zip) =
       (Exited 0, print [S ''lib/arm64-v8a/liboboe_synth.so'', S ''NOT FOUND'']
                    (log (EvGetInfo ''lib/arm64-v8a/liboboe_synth.so'')
                       (world_with ''app.apk'' empty_zip)))
   \<and> fs (world_with ''app.apk'' empty_zip) (apk_path with_arg) = Some (RegularFile empty_zip)
   \<and> example_parse empty_zip = Inr empty_index
   \<and> exit_status (fst (main example_parse with_arg (world_with ''app.apk'' empty_zip))) = 0
   \<and> stdout (snd (main example_parse with_arg (world_with ''app.apk'' empty_zip))) =
       [[S ''Checking:'', S ''app.apk''], [],
        [S ''lib/arm64-v8a/liboboe.so'', S ''NOT FOUND''],
        [S ''lib/arm64-v8a/liboboe_synth.so'', S ''NOT FOUND'']]"
  using absent_entry_not_found [where z = empty_index and name = "''lib/arm64-v8a/liboboe_synth.so''"
      and apk = "''app.apk''" and names = "[]" and w = "world_with ''app.apk'' empty_zip"
      and argv = with_arg and bs = empty_zip and parse = example_parse and z' = empty_index]
  by (simp add: empty_index_def example_parse_facts apk_path_examples world_with_def)



text \<open>
  C6. Every data offset the script computes is non-negative, and the value it reports as
  \<^verbatim>\<open>data_offset % 16384\<close> is \<open>data_offset - 16384 * (data_offset div 16384)\<close>, the
  remainder of the rounded-down division, between 0 and 16383.
\<close>

theorem data_offset_mod_16384:
  assumes "fst (read_local_header apk name info w) = Inr (DataOffset d)"
  shows "0 \<le> d
    \<and> d mod 16384 = d - 16384 * (d div 16384)
    \<and> 0 \<le> d mod 16384 \<and> d mod 16384 < 16384
    \<and> [S ''  data_offset % 16384 ='', I (d - 16384 * (d div 16384))]
        \<in> set (stdout (report name info d (snd (read_local_header apk name info w))))"
proof -
  from assms have "read_local_header apk name info w =
      (Inr (DataOffset d), snd (read_local_header apk name info w))"
    by (simp add: prod_eq_iff)
  from read_local_header_DataOffset [OF this] obtain bs where
    "seekable w (header_offset info)" "d = spec_data_offset bs (header_offset info)"
    by auto
  then have nonneg: "0 \<le> d" using spec_data_offset_lower [of "header_offset info" bs]
    by (simp add: seekable_def)
  have floor_mod: "d mod 16384 = d - 16384 * (d div 16384)"
    by (simp add: minus_mult_div_eq_mod)
  have lower: "0 \<le> d mod 16384" and upper: "d mod 16384 < 16384"
    by simp_all
  have "[S ''  data_offset % 16384 ='', I (d mod 16384)]
      \<in> set (stdout (report name info d (snd (read_local_header apk name info w))))"
    by (simp add: report_stdout)
  then have line: "[S ''  data_offset % 16384 ='', I (d - 16384 * (d div 16384))]
      \<in> set (stdout (report name info d (snd (read_local_header apk name info w))))"
    by (simp only: floor_mod)
  from nonneg floor_mod lower upper line show ?thesis by blast
qed

theorem data_offset_mod_16384_witness:
  "fst (read_local_header ''app.apk'' ''lib/arm64-v8a/liboboe_synth.so''
          \<lparr>header_offset = 64, compress_type = 0, file_size = 4, compress_size = 4\<rparr>
          (world_with ''app.apk'' example_apk)) = Inr (DataOffset 124)
   \<and> (124 :: int) mod 16384 = 124 - 16384 * (124 div 16384)
   \<and> [S ''  data_offset % 16384 ='', I 124]
       \<in> set (stdout (report ''lib/arm64-v8a/liboboe_synth.so''
           \<lparr>header_offset = 64, compress_type = 0, file_size = 4, compress_size = 4\<rparr> 124
           (snd (read_local_header ''app.apk'' ''lib/arm64-v8a/liboboe_synth.so''
              \<lparr>header_offset = 64, compress_type = 0, file_size = 4, compress_size = 4\<rparr>
              (world_with ''app.apk'' example_apk)))))"
proof -
  note reg = example_world_file and run = example_synth_header
  from data_offset_mod_16384 [OF run] run show ?thesis by simp
qed

text \<open>
  C7. Round trip: when the extra-field length in an entry's local header is zero, the
  computed data offset minus the header offset minus 30 is the filename-length field of
  that header.
\<close>

theorem zero_extra_round_trip:
  assumes "fst (read_local_header apk name info w) = Inr (DataOffset d)"
    and "fs w apk = Some (RegularFile bs)"
    and "le16_at bs (nat (header_offset info) + 28) = 0"
  shows "d - header_offset info - 30 = le16_at bs (nat (header_offset info) + 26)"
proof -
  from assms(1) have "read_local_header apk name info w =
      (Inr (DataOffset d), snd (read_local_header apk name info w))"
    by (simp add: prod_eq_iff)
  from read_local_header_DataOffset [OF this] assms(2)
  have "d = spec_data_offset bs (header_offset info)" by auto
  with assms(3) show ?thesis by (simp add: spec_data_offset_def)
qed

theorem zero_extra_round_trip_witness:
  "fst (read_local_header ''app.apk'' ''lib/arm64-v8a/liboboe_synth.so''
          \<lparr>header_offset = 64, compress_type = 0, file_size = 4, compress_size = 4\<rparr>
          (world_with ''app.apk'' example_apk)) = Inr (DataOffset 124)
   \<and> fs (world_with ''app.apk'' example_apk) ''app.apk'' = Some (RegularFile example_apk)
   \<and> le16_at example_apk (nat 64 + 28) = 0
   \<and> (124 :: int) - 64 - 30 = le16_at example_apk (nat 64 + 26)
   \<and> le16_at example_apk (nat 64 + 26) = int (length ''lib/arm64-v8a/liboboe_synth.so'')"
proof -
  note reg = example_world_file and run = example_synth_header
  have extra: "le16_at example_apk (nat (header_offset
      \<lparr>header_offset = 64, compress_type = 0, file_size = 4, compress_size = 4\<rparr>) + 28) = 0"
    by (simp add: example_facts)
  from zero_extra_round_trip [OF run reg extra] run reg show ?thesis
    by (simp add: example_facts)
qed




text \<open>
  C8. A run never changes the file system: the content of every file, the archive among
  them, is the same after the run as before. Every event of the run is a read-only one
  (the existence test, opening the zip, looking a name up, opening for reading, seek,
  read, close). Every \<^verbatim>\<open>print\<close> of the script writes to standard output: standard
  error is left as it was, and standard output and the log only grow.
\<close>

theorem archive_never_modified:
  "fs (snd (main parse argv w)) = fs w
   \<and> (\<forall>p. file_bytes (snd (main parse argv w)) p = file_bytes w p)
   \<and> list_all read_only (events_of parse argv w)
   \<and> stderr (snd (main parse argv w)) = stderr w
   \<and> prefix (stdout w) (stdout (snd (main parse argv w)))
   \<and> prefix (trace w) (trace (snd (main parse argv w)))"
proof -
  obtain out w' where run: "main parse argv w = (out, w')"
    by (cases "main parse argv w")
  from main_effect [OF run] obtain ls evs where
    "fs w' = fs w" "stderr w' = stderr w" "stdout w' = stdout w @ ls"
    "trace w' = trace w @ evs" "list_all read_only evs"
    by auto
  then show ?thesis
    by (simp add: run events_of_def file_bytes_def)
qed

theorem archive_never_modified_witness:
  "fs (snd (main example_parse with_arg (world_with ''app.apk'' bad_offset_apk))) =
     fs (world_with ''app.apk'' bad_offset_apk)
   \<and> list_all read_only (events_of example_parse with_arg (world_with ''app.apk'' bad_offset_apk))
   \<and> stderr (snd (main example_parse with_arg (world_with ''app.apk'' bad_offset_apk))) = []"
  using archive_never_modified [of example_parse with_arg "world_with ''app.apk'' bad_offset_apk"]
  by (simp add: world_with_def)

text \<open>
  C9. Without a command-line argument the archive path is
  \<^verbatim>\<open>app/build/outputs/apk/debug/app-debug.apk\<close>, and that is the path the run tests
  first. The names the run looks up are, in this order,
  \<^verbatim>\<open>lib/arm64-v8a/liboboe.so\<close> and \<^verbatim>\<open>lib/arm64-v8a/liboboe_synth.so\<close>: always an
  initial part of that sequence, and exactly that sequence when the run reaches the end of
  the script.
\<close>

theorem default_archive_and_names:
  assumes "length argv \<le> 1"
  shows "apk_path argv = ''app/build/outputs/apk/debug/app-debug.apk''
    \<and> (\<exists>evs. events_of parse argv w = EvExists ''app/build/outputs/apk/debug/app-debug.apk'' # evs)
    \<and> prefix (lookups (events_of parse argv w))
         [''lib/arm64-v8a/liboboe.so'', ''lib/arm64-v8a/liboboe_synth.so'']
    \<and> (fst (main parse argv w) = Exited 0 \<longrightarrow>
         lookups (events_of parse argv w) =
           [''lib/arm64-v8a/liboboe.so'', ''lib/arm64-v8a/liboboe_synth.so''])"
proof -
  have path: "apk_path argv = ''app/build/outputs/apk/debug/app-debug.apk''"
    using assms by (simp add: apk_path_def default_apk_def)
  obtain out w' where run: "main parse argv w = (out, w')"
    by (cases "main parse argv w")
  from main_effect [OF run] obtain evs where
    evs: "trace w' = trace w @ evs" "prefix (lookups evs) libraries"
      "out = Exited 0 \<longrightarrow> lookups evs = libraries"
    by auto
  from main_first_event [of parse argv w] obtain evs' where
    "trace w' = trace w @ EvExists (apk_path argv) # evs'"
    by (auto simp add: run)
  with evs path show ?thesis
    by (auto simp add: run events_of_def libraries_def)
qed

theorem default_archive_and_names_witness:
  "length no_args \<le> 1
   \<and> apk_path no_args = ''app/build/outputs/apk/debug/app-debug.apk''
   \<and> fst (main example_parse no_args
        (world_with ''app/build/outputs/apk/debug/app-debug.apk'' example_apk)) = Exited 0
   \<and> lookups (events_of example_parse no_args
        (world_with ''app/build/outputs/apk/debug/app-debug.apk'' example_apk)) =
       [''lib/arm64-v8a/liboboe.so'', ''lib/arm64-v8a/liboboe_synth.so'']"
  using default_archive_and_names [of no_args example_parse
      "world_with ''app/build/outputs/apk/debug/app-debug.apk'' example_apk"]
    example_run_default
  by (simp add: no_args_def)

text \<open>
  C10. When the archive path is a regular file that \<^verbatim>\<open>zipfile.ZipFile\<close> rejects, the
  exception is not caught: the run ends with it, having printed nothing and looked no
  entry up, and the exit status is 1, neither 0 nor 2.
\<close>

theorem not_a_zip_uncaught:
  assumes "fs w (apk_path argv) = Some (RegularFile bs)" and "parse bs = Inl e"
  shows "fst (main parse argv w) = Uncaught e
    \<and> exit_status (fst (main parse argv w)) = 1
    \<and> exit_status (fst (main parse argv w)) \<noteq> 0
    \<and> exit_status (fst (main parse argv w)) \<noteq> 2
    \<and> stdout (snd (main parse argv w)) = stdout w
    \<and> events_of parse argv w = [EvExists (apk_path argv), EvZipOpen (apk_path argv)]"
proof -
  from assms(2) have "(case RegularFile bs of Directory \<Rightarrow> Inl IsADirectoryError
         | RegularFile bs \<Rightarrow> parse bs) = Inl e"
    by simp
  from main_not_opened [OF assms(1) this] show ?thesis
    by (simp add: events_of_def)
qed

theorem not_a_zip_uncaught_witness:
  "fs (world_with ''app.apk'' []) (apk_path with_arg) = Some (RegularFile [])
   \<and> example_parse [] = Inl BadZipFile
   \<and> fst (main example_parse with_arg (world_with ''app.apk'' [])) = Uncaught BadZipFile
   \<and> exit_status (fst (main example_parse with_arg (world_with ''app.apk'' []))) = 1
   \<and> stdout (snd (main example_parse with_arg (world_with ''app.apk'' []))) = []"
  using not_a_zip_uncaught [of "world_with ''app.apk'' []" with_arg "[]" example_parse BadZipFile]
  by (simp add: example_parse_facts world_with_def apk_path_examples)

end
